theory Spec2Isabelle
  imports Complex_Main
begin

section \<open>Conventions\<close>

text \<open>
  Python floats are modelled as \<^typ>\<open>real\<close>: rounding, infinities and NaN are outside
  the model. Every \<^verbatim>\<open>raise\<close> of the source is a value of the type \<open>error\<close>,
  and a function that can raise returns \<open>error + 'a\<close> with \<open>Inl\<close> for the exception.
  Exceptions of the run-time system are part of the model where the code meets them:
  the TypeError of hashing an unhashable argument, the AttributeError of reading an
  attribute that the class does not declare, and the ValidationError of a schema class.
\<close>

datatype error =
    ZeroDivisionError
  | ValueError
  | TypeError
  | AttributeError
  | ValidationError
  | NameError
  | IndexError
  | NoSuitablePipeDiameter
  | NoSuitableEquipment

section \<open>Agronomic calculator (app/services/agronomic\_engine.py)\<close>

datatype WaterNeed = LOW | MEDIUM | HIGH

datatype SunExposure = FULL_SUN | PARTIAL_SUN | SHADE

text \<open>The fields of \<^verbatim>\<open>PlantSpecs\<close> that the functions below read.\<close>

record PlantSpecs =
  name :: string
  spacing_min :: real
  spacing_optimal :: real
  water_need :: WaterNeed
  sun_exposure :: SunExposure
  incompatible_plants :: "string list"

fun spacing_water_factor :: "WaterNeed \<Rightarrow> real" where
  "spacing_water_factor LOW = 1.0"
| "spacing_water_factor MEDIUM = 1.1"
| "spacing_water_factor HIGH = 1.2"

fun spacing_sun_factor :: "SunExposure \<Rightarrow> real" where
  "spacing_sun_factor FULL_SUN = 1.1"
| "spacing_sun_factor PARTIAL_SUN = 1.0"
| "spacing_sun_factor SHADE = 0.9"

text \<open>The body of \<^verbatim>\<open>calculate_optimal_spacing\<close>, the function that the decorator wraps.\<close>

definition calculate_optimal_spacing_wrapped :: "PlantSpecs \<Rightarrow> real \<Rightarrow> real" where
  "calculate_optimal_spacing_wrapped plant_specs soil_quality =
     (let base_spacing = spacing_optimal plant_specs;
          soil_factor = 0.8 + (soil_quality * 0.4);
          water_factor = spacing_water_factor (water_need plant_specs);
          sun_factor = spacing_sun_factor (sun_exposure plant_specs);
          optimal_spacing = base_spacing * soil_factor * water_factor * sun_factor
      in max optimal_spacing (spacing_min plant_specs))"

text \<open>
  \<^verbatim>\<open>@lru_cache(maxsize=1000)\<close>: the cache builds its key from the arguments and
  hashes it before the wrapped function runs, and the hash of an unhashable argument
  raises TypeError. For hashable arguments the cache of a pure function does not change
  the result.
\<close>

definition lru_cache :: "('a \<Rightarrow> bool) \<Rightarrow> ('a \<Rightarrow> 'b) \<Rightarrow> 'a \<Rightarrow> error + 'b" where
  "lru_cache hashable f args = (if hashable args then Inr (f args) else Inl TypeError)"

text \<open>
  \<^verbatim>\<open>PlantSpecs\<close> is declared with a plain \<^verbatim>\<open>@dataclass\<close> (\<^verbatim>\<open>eq=True\<close>, not frozen),
  which sets \<^verbatim>\<open>__hash__\<close> to \<^verbatim>\<open>None\<close>: no instance is hashable. A float is.
\<close>

definition plant_specs_hashable :: "PlantSpecs \<Rightarrow> bool" where
  "plant_specs_hashable plant_specs = False"

definition calculate_optimal_spacing :: "PlantSpecs \<Rightarrow> real \<Rightarrow> error + real" where
  "calculate_optimal_spacing plant_specs soil_quality =
     lru_cache (\<lambda>(p, q). plant_specs_hashable p)
       (\<lambda>(p, q). calculate_optimal_spacing_wrapped p q) (plant_specs, soil_quality)"

text \<open>The plant of the repository's test fixture \<^verbatim>\<open>sample_plant_specs\<close>.\<close>

definition sample_plant_specs :: PlantSpecs where
  "sample_plant_specs =
     \<lparr>name = ''Tomato'', spacing_min = 30, spacing_optimal = 45, water_need = MEDIUM,
      sun_exposure = FULL_SUN, incompatible_plants = [''Potato'', ''Corn'']\<rparr>"

section \<open>Hydraulic engine (app/services/hydraulic\_engine.py)\<close>

text \<open>
  \<^verbatim>\<open>float('inf')\<close> and \<^verbatim>\<open>float('-inf')\<close> are the initial values of running
  minima and maxima; \<open>xreal\<close> adds them to the reals, with Python's \<^verbatim>\<open><\<close>.
\<close>

datatype xreal = MInf | Fin real | PInf

fun xless :: "xreal \<Rightarrow> xreal \<Rightarrow> bool" where
  "xless MInf MInf = False"
| "xless MInf _ = True"
| "xless (Fin a) (Fin b) = (a < b)"
| "xless (Fin a) PInf = True"
| "xless (Fin a) MInf = False"
| "xless PInf _ = False"

definition xle :: "xreal \<Rightarrow> xreal \<Rightarrow> bool" where
  "xle a b = (a = b \<or> xless a b)"

datatype PipeMaterial = PVC | PE | PEX | COPPER

datatype FlowRegime = LAMINAR | TRANSITIONAL | TURBULENT

definition WATER_DENSITY :: real where
  "WATER_DENSITY = 998.2"

definition WATER_VISCOSITY :: real where
  "WATER_VISCOSITY = 1.002 / 1000"

text \<open>The table \<^verbatim>\<open>PIPE_PROPERTIES\<close>, one function per column.\<close>

fun roughness_mm_of :: "PipeMaterial \<Rightarrow> real" where
  "roughness_mm_of PVC = 0.0015"
| "roughness_mm_of PE = 0.007"
| "roughness_mm_of PEX = 0.007"
| "roughness_mm_of COPPER = 0.0015"


definition calculate_reynolds_number :: "real \<Rightarrow> real \<Rightarrow> real" where
  "calculate_reynolds_number velocity_ms diameter_m =
     (WATER_DENSITY * velocity_ms * diameter_m) / WATER_VISCOSITY"

definition determine_flow_regime :: "real \<Rightarrow> FlowRegime" where
  "determine_flow_regime reynolds_number =
     (if reynolds_number < 2300 then LAMINAR
      else if reynolds_number < 4000 then TRANSITIONAL
      else TURBULENT)"

text \<open>
  The Swamee-Jain initial guess \<^verbatim>\<open>f_guess\<close>. It is computed outside the
  \<^verbatim>\<open>try\<close>, so \<^verbatim>\<open>math.log10\<close> of a non-positive number (ValueError) and the
  division by a zero square (ZeroDivisionError) leave the function.
\<close>

definition f_guess :: "real \<Rightarrow> real \<Rightarrow> error + real" where
  "f_guess reynolds_number relative_roughness =
     (let arg = relative_roughness / 3.7 + 5.74 / (reynolds_number powr 0.9)
      in if arg \<le> 0 then Inl ValueError
         else if (log 10 arg) ^ 2 = 0 then Inl ZeroDivisionError
         else Inr (0.25 / (log 10 arg) ^ 2))"

text \<open>
  \<^verbatim>\<open>minimize_scalar\<close> is scipy's bounded minimiser, not code of the repository: the
  parameter \<open>minimize_colebrook\<close> gives its \<^verbatim>\<open>result.x\<close> for a Reynolds number and a
  relative roughness, or \<open>None\<close> when the call raises and the \<^verbatim>\<open>except\<close> branch
  falls back to the initial guess.
\<close>

type_synonym minimizer = "real \<Rightarrow> real \<Rightarrow> real option"

definition calculate_friction_factor :: "minimizer \<Rightarrow> real \<Rightarrow> real \<Rightarrow> error + real" where
  "calculate_friction_factor minimize_colebrook reynolds_number relative_roughness =
     (if reynolds_number < 2300 then
        (if reynolds_number = 0 then Inl ZeroDivisionError else Inr (64.0 / reynolds_number))
      else
        (case f_guess reynolds_number relative_roughness of
           Inl e \<Rightarrow> Inl e
         | Inr guess \<Rightarrow>
             (case minimize_colebrook reynolds_number relative_roughness of
                Some f \<Rightarrow> Inr f
              | None \<Rightarrow> Inr guess)))"

text \<open>A minimiser that always raises, so that the fallback is taken.\<close>

definition failing_minimizer :: minimizer where
  "failing_minimizer reynolds_number relative_roughness = None"

text \<open>
  The result is the tuple (pressure loss in bar, velocity, Reynolds number, friction
  factor). The division by the cross-section raises for a zero diameter.
\<close>

definition calculate_pressure_loss_darcy_weisbach ::
  "minimizer \<Rightarrow> real \<Rightarrow> real \<Rightarrow> real \<Rightarrow> real \<Rightarrow> error + (real \<times> real \<times> real \<times> real)" where
  "calculate_pressure_loss_darcy_weisbach minimize_colebrook flow_rate_lph diameter_m length_m roughness_m =
     (let flow_rate_m3s = flow_rate_lph / (1000 * 3600);
          area_m2 = pi * (diameter_m / 2) ^ 2
      in if area_m2 = 0 then Inl ZeroDivisionError
         else
           let velocity_ms = flow_rate_m3s / area_m2;
               reynolds_number = calculate_reynolds_number velocity_ms diameter_m;
               relative_roughness = roughness_m / diameter_m
           in case calculate_friction_factor minimize_colebrook reynolds_number relative_roughness of
                Inl e \<Rightarrow> Inl e
              | Inr friction_factor \<Rightarrow>
                  let pressure_loss_pa =
                        friction_factor * (length_m / diameter_m) * (WATER_DENSITY * velocity_ms ^ 2) / 2;
                      pressure_loss_bar = pressure_loss_pa / 100000
                  in Inr (pressure_loss_bar, velocity_ms, reynolds_number, friction_factor))"

subsection \<open>optimize\_pipe\_diameter\<close>



text \<open>
  The major loss plus the 10 percent minor loss of one candidate diameter, as the loop
  body computes it; an exception is caught by the loop and skips the candidate.
\<close>

definition candidate_pressure_loss :: "minimizer \<Rightarrow> real \<Rightarrow> real \<Rightarrow> PipeMaterial \<Rightarrow> int \<Rightarrow> error + real" where
  "candidate_pressure_loss minimize_colebrook flow_rate_lph length_m mat diameter_mm =
     (let diameter_m = real_of_int diameter_mm / 1000.0;
          roughness_m = roughness_mm_of mat / 1000.0
      in case calculate_pressure_loss_darcy_weisbach minimize_colebrook flow_rate_lph diameter_m length_m roughness_m of
           Inl e \<Rightarrow> Inl e
         | Inr (pressure_loss_bar, velocity_ms, reynolds_number, friction_factor) \<Rightarrow>
             let minor_losses = pressure_loss_bar * 0.1
             in Inr (pressure_loss_bar + minor_losses))"



text \<open>A candidate diameter satisfies the constraint when its loss is computed and small enough.\<close>

definition acceptable :: "minimizer \<Rightarrow> real \<Rightarrow> real \<Rightarrow> PipeMaterial \<Rightarrow> real \<Rightarrow> int \<Rightarrow> bool" where
  "acceptable minimize_colebrook flow_rate_lph length_m mat max_pressure_loss_bar diameter_mm =
     (case candidate_pressure_loss minimize_colebrook flow_rate_lph length_m mat diameter_mm of
        Inl e \<Rightarrow> False
      | Inr total_loss \<Rightarrow> total_loss \<le> max_pressure_loss_bar)"

subsection \<open>calculate\_network\_hydraulics\<close>

text \<open>
  The fields of the schema classes \<^verbatim>\<open>IrrigationZone\<close> and \<^verbatim>\<open>IrrigationPipe\<close> that
  the function reads (prefixed here). A pipe declares \<^verbatim>\<open>diameter_mm\<close>.
\<close>

record IrrigationZone =
  zone_required_flow_lph :: real

record IrrigationPipe =
  pipe_id :: string
  pipe_material :: PipeMaterial
  pipe_flow_rate_lph :: real
  pipe_diameter_mm :: real
  pipe_length_m :: real

text \<open>
  The function reads \<^verbatim>\<open>pipe.diameter_m\<close>. Neither the schema class nor the database
  model of a pipe has an attribute of that name, so the read raises AttributeError.
\<close>

definition pipe_diameter_m :: "IrrigationPipe \<Rightarrow> error + real" where
  "pipe_diameter_m pipe = Inl AttributeError"

text \<open>The three warning texts, with the numbers they are formatted from.\<close>

datatype warning =
    is_flow_warning: FlowExceedsCapacity real real
  | PressureBelowMinimum real
  | PressureCriticallyLow

record PipeResult =
  pr_pipe_id :: string
  pr_pressure_loss_bar :: real
  pr_velocity_ms :: real
  pr_reynolds_number :: real
  pr_friction_factor :: real
  pr_flow_regime :: FlowRegime

text \<open>
  The result object; the three averages are \<^verbatim>\<open>np.mean\<close> of a list, which is NaN
  (here \<open>None\<close>) for the empty list.
\<close>

record HydraulicCalculationResult =
  total_flow_lph :: real
  total_pressure_loss_bar :: real
  final_pressure_bar :: real
  mean_velocity_ms :: "real option"
  mean_reynolds_number :: "real option"
  mean_friction_factor :: "real option"
  warnings :: "warning list"
  is_system_viable :: bool

definition np_mean :: "real list \<Rightarrow> real option" where
  "np_mean xs = (if xs = [] then None else Some (sum_list xs / real (length xs)))"

text \<open>The body of the loop over the pipes, for one pipe.\<close>

definition pipe_hydraulics :: "minimizer \<Rightarrow> IrrigationPipe \<Rightarrow> error + PipeResult" where
  "pipe_hydraulics minimize_colebrook pipe =
     (let roughness_mm = roughness_mm_of (pipe_material pipe)
      in case pipe_diameter_m pipe of
           Inl e \<Rightarrow> Inl e
         | Inr diameter_m \<Rightarrow>
             (case calculate_pressure_loss_darcy_weisbach minimize_colebrook
                     (pipe_flow_rate_lph pipe) diameter_m (pipe_length_m pipe) (roughness_mm / 1000.0) of
                Inl e \<Rightarrow> Inl e
              | Inr (major_loss_bar, v, re, f) \<Rightarrow>
                  let minor_losses = major_loss_bar * 0.1;
                      total_pipe_loss = major_loss_bar + minor_losses
                  in Inr \<lparr>pr_pipe_id = pipe_id pipe, pr_pressure_loss_bar = total_pipe_loss,
                          pr_velocity_ms = v, pr_reynolds_number = re, pr_friction_factor = f,
                          pr_flow_regime = determine_flow_regime re\<rparr>))"

text \<open>The loop; its state is (total\_pressure\_loss, pipe\_results). An exception ends it.\<close>

fun pipe_loop :: "minimizer \<Rightarrow> IrrigationPipe list \<Rightarrow> real \<times> PipeResult list
    \<Rightarrow> error + (real \<times> PipeResult list)" where
  "pipe_loop minimize_colebrook [] st = Inr st"
| "pipe_loop minimize_colebrook (pipe # pipes) (total_loss, pipe_results) =
     (case pipe_hydraulics minimize_colebrook pipe of
        Inl e \<Rightarrow> Inl e
      | Inr pr \<Rightarrow>
          pipe_loop minimize_colebrook pipes
            (total_loss + pr_pressure_loss_bar pr, pipe_results @ [pr]))"

definition calculate_network_hydraulics ::
  "minimizer \<Rightarrow> IrrigationZone list \<Rightarrow> IrrigationPipe list \<Rightarrow> real \<Rightarrow> real
     \<Rightarrow> error + HydraulicCalculationResult" where
  "calculate_network_hydraulics minimize_colebrook zones pipes source_pressure_bar source_flow_lph =
     (let total_flow = sum_list (map zone_required_flow_lph zones);
          warnings0 = (if total_flow > source_flow_lph
                       then [FlowExceedsCapacity total_flow source_flow_lph] else [])
      in case pipe_loop minimize_colebrook pipes (0.0, []) of
           Inl e \<Rightarrow> Inl e
         | Inr (total_pressure_loss, pipe_results) \<Rightarrow>
             let final_pressure = source_pressure_bar - total_pressure_loss;
                 viable = (final_pressure \<ge> 1.0);
                 warnings1 = (if final_pressure < 1.0
                              then warnings0 @ [PressureBelowMinimum final_pressure] else warnings0);
                 warnings2 = (if final_pressure < 0.5
                              then warnings1 @ [PressureCriticallyLow] else warnings1)
             in Inr \<lparr>total_flow_lph = total_flow,
                     total_pressure_loss_bar = total_pressure_loss,
                     final_pressure_bar = final_pressure,
                     mean_velocity_ms = np_mean (map pr_velocity_ms pipe_results),
                     mean_reynolds_number = np_mean (map pr_reynolds_number pipe_results),
                     mean_friction_factor = np_mean (map pr_friction_factor pipe_results),
                     warnings = warnings2,
                     is_system_viable = viable\<rparr>)"

text \<open>
  The example of the specification, a demand of 600 LPH on a source of 500 LPH, with
  one lateral pipe of 16 mm.
\<close>

definition example_zones :: "IrrigationZone list" where
  "example_zones = [\<lparr>zone_required_flow_lph = 400\<rparr>, \<lparr>zone_required_flow_lph = 200\<rparr>]"

definition example_pipe :: IrrigationPipe where
  "example_pipe = \<lparr>pipe_id = ''lateral'', pipe_material = PVC, pipe_flow_rate_lph = 10,
                    pipe_diameter_mm = 16, pipe_length_m = 50\<rparr>"

section \<open>Conflict detector (app/services/agronomic\_engine.py)\<close>

text \<open>
  The fields of \<^verbatim>\<open>GardenZone\<close> and \<^verbatim>\<open>PlantPlacement\<close> that are read; the coordinates
  \<^verbatim>\<open>x\<close> and \<^verbatim>\<open>y\<close> of a placement are the fields \<open>pos_x\<close> and \<open>pos_y\<close>.
\<close>

record GardenZone =
  area :: real
  coordinates :: "real \<times> real"

record PlantPlacement =
  plant_id :: string
  plant_specs :: PlantSpecs
  pos_x :: real
  pos_y :: real

text \<open>
  \<^verbatim>\<open>_is_in_zone\<close>: \<^verbatim>\<open>math.sqrt\<close> raises ValueError for a negative
  \<^verbatim>\<open>zone.area / math.pi\<close>.
\<close>

definition is_in_zone :: "PlantPlacement \<Rightarrow> GardenZone \<Rightarrow> error + bool" where
  "is_in_zone placement zone =
     (let dx = pos_x placement - fst (coordinates zone);
          dy = pos_y placement - snd (coordinates zone);
          d = sqrt (dx * dx + dy * dy)
      in if area zone / pi < 0 then Inl ValueError
         else Inr (d \<le> sqrt (area zone / pi)))"

text \<open>\<^verbatim>\<open>any(self.calculator._is_in_zone(placement, zone) for zone in garden_zones)\<close>,
  which stops at the first zone that contains the placement.\<close>

fun any_in_zone :: "PlantPlacement \<Rightarrow> GardenZone list \<Rightarrow> error + bool" where
  "any_in_zone placement [] = Inr False"
| "any_in_zone placement (zone # zones) =
     (case is_in_zone placement zone of
        Inl e \<Rightarrow> Inl e
      | Inr b \<Rightarrow> if b then Inr True else any_in_zone placement zones)"

text \<open>The Euclidean distance of two placements, as every pairwise loop computes it.\<close>

definition distance :: "PlantPlacement \<Rightarrow> PlantPlacement \<Rightarrow> real" where
  "distance placement1 placement2 =
     sqrt ((pos_x placement1 - pos_x placement2) ^ 2 + (pos_y placement1 - pos_y placement2) ^ 2)"

text \<open>
  The pairs visited by
  \<^verbatim>\<open>for i, placement1 in enumerate(placements): for j, placement2 in enumerate(placements[i+1:], i+1)\<close>,
  in the order of the visit.
\<close>

fun pairs :: "'a list \<Rightarrow> ('a \<times> 'a) list" where
  "pairs [] = []"
| "pairs (p # ps) = map (Pair p) ps @ pairs ps"

record SpacingViolation =
  sv_plant1 :: string
  sv_plant2 :: string
  sv_current_distance :: real
  sv_required_distance :: real
  sv_severity :: string

record CompatibilityViolation =
  cv_plant1 :: string
  cv_plant2 :: string
  cv_distance :: real
  cv_severity :: string

record ZoneViolation =
  zv_plant_id :: string
  zv_position :: "real \<times> real"
  zv_severity :: string

record ResourceConflict =
  rc_type :: string
  rc_plants :: "string list"
  rc_severity :: string
  rc_description :: string

record Conflicts =
  spacing_violations :: "SpacingViolation list"
  compatibility_violations :: "CompatibilityViolation list"
  zone_violations :: "ZoneViolation list"
  resource_conflicts :: "ResourceConflict list"

text \<open>
  The spacing loop of \<^verbatim>\<open>detect_conflicts\<close> over the pairs: the distance, then the
  call of \<^verbatim>\<open>calculate_optimal_spacing\<close>, whose exception leaves the function.
\<close>

fun spacing_loop :: "(PlantPlacement \<times> PlantPlacement) list \<Rightarrow> error + SpacingViolation list" where
  "spacing_loop [] = Inr []"
| "spacing_loop ((placement1, placement2) # rest) =
     (let d = distance placement1 placement2
      in case calculate_optimal_spacing (plant_specs placement1) 0.7 of
           Inl e \<Rightarrow> Inl e
         | Inr spacing \<Rightarrow>
             let min_spacing = spacing / 100
             in (case spacing_loop rest of
                   Inl e \<Rightarrow> Inl e
                 | Inr vs \<Rightarrow>
                     Inr ((if d < min_spacing then
                             [\<lparr>sv_plant1 = plant_id placement1, sv_plant2 = plant_id placement2,
                               sv_current_distance = d, sv_required_distance = min_spacing,
                               sv_severity = (if d < min_spacing * 0.5 then ''high'' else ''medium'')\<rparr>]
                           else []) @ vs)))"

definition lists_incompatible :: "PlantPlacement \<Rightarrow> PlantPlacement \<Rightarrow> bool" where
  "lists_incompatible placement1 placement2 =
     (name (plant_specs placement2) \<in> set (incompatible_plants (plant_specs placement1))
      \<or> name (plant_specs placement1) \<in> set (incompatible_plants (plant_specs placement2)))"

definition compatibility_record :: "PlantPlacement \<Rightarrow> PlantPlacement \<Rightarrow> CompatibilityViolation" where
  "compatibility_record placement1 placement2 =
     \<lparr>cv_plant1 = plant_id placement1, cv_plant2 = plant_id placement2,
      cv_distance = distance placement1 placement2, cv_severity = ''high''\<rparr>"

definition compatibility_violation_of :: "PlantPlacement \<times> PlantPlacement \<Rightarrow> CompatibilityViolation list" where
  "compatibility_violation_of pr =
     (case pr of (placement1, placement2) \<Rightarrow>
        if lists_incompatible placement1 placement2 then
          (if distance placement1 placement2 < 2.0
           then [compatibility_record placement1 placement2] else [])
        else [])"

text \<open>The compatibility loop of \<^verbatim>\<open>detect_conflicts\<close> over the pairs.\<close>

definition compatibility_loop :: "PlantPlacement list \<Rightarrow> CompatibilityViolation list" where
  "compatibility_loop placements = concat (map compatibility_violation_of (pairs placements))"

fun check_zone_violations :: "PlantPlacement list \<Rightarrow> GardenZone list \<Rightarrow> error + ZoneViolation list" where
  "check_zone_violations [] garden_zones = Inr []"
| "check_zone_violations (placement # placements) garden_zones =
     (case any_in_zone placement garden_zones of
        Inl e \<Rightarrow> Inl e
      | Inr in_valid_zone \<Rightarrow>
          (case check_zone_violations placements garden_zones of
             Inl e \<Rightarrow> Inl e
           | Inr vs \<Rightarrow>
               Inr ((if \<not> in_valid_zone
                     then [\<lparr>zv_plant_id = plant_id placement,
                            zv_position = (pos_x placement, pos_y placement),
                            zv_severity = ''high''\<rparr>]
                     else []) @ vs)))"

text \<open>
  \<^verbatim>\<open>_detect_water_conflicts\<close>: for each placement, the inner loop runs over
  \<^verbatim>\<open>placements[i+1:]\<close>, the placements after it.
\<close>

definition high_water_plants_of :: "PlantPlacement \<Rightarrow> PlantPlacement list \<Rightarrow> string list" where
  "high_water_plants_of placement1 later =
     map plant_id
       (filter (\<lambda>placement2. distance placement1 placement2 < 1.0
                  \<and> water_need (plant_specs placement1) = HIGH
                  \<and> water_need (plant_specs placement2) = HIGH) later)"

definition water_conflict_of :: "PlantPlacement \<Rightarrow> PlantPlacement list \<Rightarrow> ResourceConflict list" where
  "water_conflict_of placement1 later =
     (let high_water_plants = high_water_plants_of placement1 later
      in if length high_water_plants > 2 then
           [\<lparr>rc_type = ''water_competition'',
             rc_plants = [plant_id placement1] @ high_water_plants,
             rc_severity = ''medium'',
             rc_description = ''Multiple high-water-need plants in close proximity''\<rparr>]
         else [])"

fun detect_water_conflicts :: "PlantPlacement list \<Rightarrow> ResourceConflict list" where
  "detect_water_conflicts [] = []"
| "detect_water_conflicts (placement1 # later) =
     water_conflict_of placement1 later @ detect_water_conflicts later"

definition detect_conflicts :: "PlantPlacement list \<Rightarrow> GardenZone list \<Rightarrow> error + Conflicts" where
  "detect_conflicts placements garden_zones =
     (case spacing_loop (pairs placements) of
        Inl e \<Rightarrow> Inl e
      | Inr sv \<Rightarrow>
          let cv = compatibility_loop placements
          in (case check_zone_violations placements garden_zones of
                Inl e \<Rightarrow> Inl e
              | Inr zv \<Rightarrow>
                  Inr \<lparr>spacing_violations = sv, compatibility_violations = cv,
                       zone_violations = zv,
                       resource_conflicts = detect_water_conflicts placements\<rparr>))"

text \<open>The garden zone of the repository's test fixture, and placements for the examples.\<close>

definition sample_garden_zone :: GardenZone where
  "sample_garden_zone = \<lparr>area = 100, coordinates = (0, 0)\<rparr>"

definition tomato :: PlantSpecs where
  "tomato = \<lparr>name = ''Tomato'', spacing_min = 30, spacing_optimal = 45, water_need = MEDIUM,
             sun_exposure = FULL_SUN, incompatible_plants = [''Potato'']\<rparr>"

definition potato :: PlantSpecs where
  "potato = \<lparr>name = ''Potato'', spacing_min = 25, spacing_optimal = 40, water_need = MEDIUM,
             sun_exposure = FULL_SUN, incompatible_plants = [''Tomato'']\<rparr>"

definition placed :: "string \<Rightarrow> PlantSpecs \<Rightarrow> real \<Rightarrow> real \<Rightarrow> PlantPlacement" where
  "placed i sp px py = \<lparr>plant_id = i, plant_specs = sp, pos_x = px, pos_y = py\<rparr>"

definition thirsty :: PlantSpecs where
  "thirsty = \<lparr>name = ''Cucumber'', spacing_min = 30, spacing_optimal = 45, water_need = HIGH,
              sun_exposure = FULL_SUN, incompatible_plants = []\<rparr>"

definition frugal :: PlantSpecs where
  "frugal = \<lparr>name = ''Thyme'', spacing_min = 20, spacing_optimal = 30, water_need = LOW,
             sun_exposure = FULL_SUN, incompatible_plants = []\<rparr>"

text \<open>
  The placements of the repository's test \<^verbatim>\<open>test_detect_conflicts\<close>, then the two
  examples of the specification, 0.5 m and 3 m apart.
\<close>

definition test_conflict_placements :: "PlantPlacement list" where
  "test_conflict_placements = [placed ''tomato_1'' tomato 0 0, placed ''potato_1'' potato 0.5 0.5]"

definition close_pair :: "PlantPlacement list" where
  "close_pair = [placed ''tomato_1'' tomato 0 0, placed ''potato_1'' potato 0.5 0]"

definition far_pair :: "PlantPlacement list" where
  "far_pair = [placed ''tomato_1'' tomato 0 0, placed ''potato_1'' potato 3 0]"

text \<open>
  For the placement at index \<open>i\<close>: the ids of the high-water placements after it in
  the list and less than 1 m from it.
\<close>

definition later_high_water :: "PlantPlacement list \<Rightarrow> nat \<Rightarrow> string list" where
  "later_high_water placements i =
     map plant_id
       (filter (\<lambda>placement2. distance (placements ! i) placement2 < 1
                  \<and> water_need (plant_specs placement2) = HIGH)
          (drop (Suc i) placements))"

text \<open>The water-competition record naming the given plant ids.\<close>

definition water_competition :: "string list \<Rightarrow> ResourceConflict" where
  "water_competition ids =
     \<lparr>rc_type = ''water_competition'', rc_plants = ids, rc_severity = ''medium'',
      rc_description = ''Multiple high-water-need plants in close proximity''\<rparr>"

definition crowded_low_first :: "PlantPlacement list" where
  "crowded_low_first =
     [placed ''thyme_1'' frugal 0 0, placed ''cucumber_1'' thirsty 0 0,
      placed ''cucumber_2'' thirsty 0 0, placed ''cucumber_3'' thirsty 0 0]"

definition crowded_all_high :: "PlantPlacement list" where
  "crowded_all_high =
     [placed ''cucumber_1'' thirsty 0 0, placed ''cucumber_2'' thirsty 0 0,
      placed ''cucumber_3'' thirsty 0 0, placed ''cucumber_4'' thirsty 0 0]"

section \<open>Placement optimizer (app/services/agronomic\_engine.py)\<close>

text \<open>
  A candidate is a Python list of references to \<^verbatim>\<open>PlantPlacement\<close> objects, and
  \<^verbatim>\<open>list.copy()\<close> copies the references, not the objects. The objects live in a
  store from addresses to placements; a candidate is a list of addresses, so that two
  lists can share a placement and an assignment to \<^verbatim>\<open>placement.x\<close> is a store update.
\<close>

type_synonym addr = nat

type_synonym heap = "addr \<Rightarrow> PlantPlacement"

type_synonym individual = "addr list"

text \<open>The attributes of the optimizer set by \<^verbatim>\<open>__init__\<close>.\<close>

record PlacementOptimizer =
  population_size :: nat
  generations :: nat
  mutation_rate :: real
  crossover_rate :: real

definition default_optimizer :: PlacementOptimizer where
  "default_optimizer =
     \<lparr>population_size = 50, generations = 100, mutation_rate = 0.1, crossover_rate = 0.8\<rparr>"

subsection \<open>Fitness\<close>

text \<open>The spacing loop of \<^verbatim>\<open>_calculate_fitness\<close>, with the same call.\<close>

fun spacing_penalty_loop :: "(PlantPlacement \<times> PlantPlacement) list \<Rightarrow> error + real" where
  "spacing_penalty_loop [] = Inr 0"
| "spacing_penalty_loop ((placement1, placement2) # rest) =
     (let d = distance placement1 placement2
      in case calculate_optimal_spacing (plant_specs placement1) 0.7 of
           Inl e \<Rightarrow> Inl e
         | Inr spacing \<Rightarrow>
             let min_spacing = spacing / 100
             in (case spacing_penalty_loop rest of
                   Inl e \<Rightarrow> Inl e
                 | Inr penalty \<Rightarrow>
                     Inr ((if d < min_spacing then (min_spacing - d) * 10 else 0) + penalty)))"

definition compatibility_penalty_of :: "PlantPlacement \<times> PlantPlacement \<Rightarrow> real" where
  "compatibility_penalty_of pr =
     (case pr of (placement1, placement2) \<Rightarrow>
        if lists_incompatible placement1 placement2 then
          (if distance placement1 placement2 < 1.0 then 50 else 0)
        else 0)"

fun zone_penalty_of :: "PlantPlacement list \<Rightarrow> GardenZone list \<Rightarrow> error + real" where
  "zone_penalty_of [] garden_zones = Inr 0"
| "zone_penalty_of (placement # placements) garden_zones =
     (case any_in_zone placement garden_zones of
        Inl e \<Rightarrow> Inl e
      | Inr in_zone \<Rightarrow>
          (case zone_penalty_of placements garden_zones of
             Inl e \<Rightarrow> Inl e
           | Inr rest \<Rightarrow> Inr ((if \<not> in_zone then 100 else 0) + rest)))"

definition calculate_fitness :: "heap \<Rightarrow> individual \<Rightarrow> GardenZone list \<Rightarrow> error + xreal" where
  "calculate_fitness h individual garden_zones =
     (if individual = [] then Inr MInf
      else
        let placements = map h individual
        in case spacing_penalty_loop (pairs placements) of
             Inl e \<Rightarrow> Inl e
           | Inr spacing_penalty \<Rightarrow>
               let compatibility_penalty = sum_list (map compatibility_penalty_of (pairs placements))
               in (case zone_penalty_of placements garden_zones of
                     Inl e \<Rightarrow> Inl e
                   | Inr zone_penalty \<Rightarrow>
                       let total_penalty = spacing_penalty + compatibility_penalty + zone_penalty;
                           base_fitness = real (length individual) * 10
                       in Inr (Fin (base_fitness - total_penalty))))"

subsection \<open>The evaluation loop with the best-ever tracking\<close>

text \<open>
  The state of the loop over the population is (fitness\_scores, best\_fitness,
  best\_solution); \<^verbatim>\<open>best_solution = individual.copy()\<close> is the list of the same
  addresses.
\<close>

fun evaluate_population ::
  "heap \<Rightarrow> GardenZone list \<Rightarrow> individual list \<Rightarrow> xreal list \<times> xreal \<times> individual option
     \<Rightarrow> error + (xreal list \<times> xreal \<times> individual option)" where
  "evaluate_population h garden_zones [] st = Inr st"
| "evaluate_population h garden_zones (individual # rest) (fitness_scores, best_fit, best_sol) =
     (case calculate_fitness h individual garden_zones of
        Inl e \<Rightarrow> Inl e
      | Inr fitness \<Rightarrow>
          evaluate_population h garden_zones rest
            (if xless best_fit fitness
             then (fitness_scores @ [fitness], fitness, Some individual)
             else (fitness_scores @ [fitness], best_fit, best_sol)))"

subsection \<open>Selection, crossover and mutation\<close>

text \<open>
  The random draws are inputs of the model. \<^verbatim>\<open>random.sample(range(n), 3)\<close> raises
  ValueError when the population has fewer than three members; otherwise the draw
  \<open>tournament_indices\<close> stands for its result.
\<close>

definition xmax :: "xreal \<Rightarrow> xreal \<Rightarrow> xreal" where
  "xmax a b = (if xless a b then b else a)"

fun first_index :: "'a list \<Rightarrow> 'a \<Rightarrow> nat" where
  "first_index [] v = 0"
| "first_index (a # as) v = (if a = v then 0 else Suc (first_index as v))"

definition tournament_selection ::
  "individual list \<Rightarrow> xreal list \<Rightarrow> nat list \<Rightarrow> error + individual" where
  "tournament_selection pop fitness_scores tournament_indices =
     (if length pop < 3 then Inl ValueError
      else if tournament_indices = [] then Inl ValueError
      else if \<not> list_all (\<lambda>i. i < length fitness_scores \<and> i < length pop) tournament_indices
        then Inl IndexError
      else
        let tournament_fitness = map (\<lambda>i. fitness_scores ! i) tournament_indices;
            best = foldl xmax (hd tournament_fitness) (tl tournament_fitness);
            winner_index = tournament_indices ! first_index tournament_fitness best
        in Inr (pop ! winner_index))"

text \<open>
  \<^verbatim>\<open>random.randint(1, len(parent1) - 1)\<close> raises ValueError for parents of fewer
  than two placements; otherwise \<open>crossover_point\<close> stands for its result.
\<close>

definition crossover :: "individual \<Rightarrow> individual \<Rightarrow> nat \<Rightarrow> error + (individual \<times> individual)" where
  "crossover parent1 parent2 crossover_point =
     (if length parent1 \<noteq> length parent2 then Inr (parent1, parent2)
      else if length parent1 < 2 then Inl ValueError
      else Inr (take crossover_point parent1 @ drop crossover_point parent2,
                take crossover_point parent2 @ drop crossover_point parent1))"

text \<open>
  \<^verbatim>\<open>_mutate\<close>: \<open>jitter i\<close> is the triple of the draws at index \<open>i\<close>, the
  \<^verbatim>\<open>random.random()\<close> compared with 0.1 and the two \<^verbatim>\<open>random.uniform(-0.5, 0.5)\<close>.
  \<^verbatim>\<open>mutated[i].x += ...\<close> updates the placement object that \<open>mutated[i]\<close> refers to.
\<close>

type_synonym jitter = "nat \<Rightarrow> real \<times> real \<times> real"

definition jitter_placement :: "heap \<Rightarrow> addr \<Rightarrow> real \<Rightarrow> real \<Rightarrow> heap" where
  "jitter_placement h a dx dy = h(a := (h a)\<lparr>pos_x := pos_x (h a) + dx, pos_y := pos_y (h a) + dy\<rparr>)"

fun mutate_loop :: "individual \<Rightarrow> jitter \<Rightarrow> heap \<Rightarrow> nat list \<Rightarrow> heap" where
  "mutate_loop mutated jit h [] = h"
| "mutate_loop mutated jit h (i # rest) =
     (case jit i of (r, dx, dy) \<Rightarrow>
        if r < 0.1 then mutate_loop mutated jit (jitter_placement h (mutated ! i) dx dy) rest
        else mutate_loop mutated jit h rest)"

definition mutate :: "heap \<Rightarrow> individual \<Rightarrow> jitter \<Rightarrow> individual \<times> heap" where
  "mutate h individual jit =
     (let mutated = individual
      in (mutated, mutate_loop mutated jit h [0..<length mutated]))"

subsection \<open>One generation and the run\<close>

text \<open>The draws of one iteration of the selection loop.\<close>

record PairDraws =
  tournament1 :: "nat list"
  tournament2 :: "nat list"
  crossover_random :: real
  crossover_point_draw :: nat
  mutation_random1 :: real
  jitter1 :: jitter
  mutation_random2 :: real
  jitter2 :: jitter

definition breed_pair ::
  "PlacementOptimizer \<Rightarrow> individual list \<Rightarrow> xreal list \<Rightarrow> heap \<Rightarrow> PairDraws
     \<Rightarrow> error + (individual list \<times> heap)" where
  "breed_pair self pop fitness_scores h d =
     (case tournament_selection pop fitness_scores (tournament1 d) of
        Inl e \<Rightarrow> Inl e
      | Inr parent1 \<Rightarrow>
     (case tournament_selection pop fitness_scores (tournament2 d) of
        Inl e \<Rightarrow> Inl e
      | Inr parent2 \<Rightarrow>
     (case (if crossover_random d < crossover_rate self
            then crossover parent1 parent2 (crossover_point_draw d)
            else Inr (parent1, parent2)) of
        Inl e \<Rightarrow> Inl e
      | Inr (child1, child2) \<Rightarrow>
          let (child1', h1) = (if mutation_random1 d < mutation_rate self
                               then mutate h child1 (jitter1 d) else (child1, h));
              (child2', h2) = (if mutation_random2 d < mutation_rate self
                               then mutate h1 child2 (jitter2 d) else (child2, h1))
          in Inr ([child1', child2'], h2))))"

text \<open>The loop \<^verbatim>\<open>for _ in range(self.population_size // 2)\<close>, with the draws of each iteration.\<close>

fun breed_loop ::
  "PlacementOptimizer \<Rightarrow> individual list \<Rightarrow> xreal list \<Rightarrow> (nat \<Rightarrow> PairDraws) \<Rightarrow> nat list
     \<Rightarrow> individual list \<times> heap \<Rightarrow> error + (individual list \<times> heap)" where
  "breed_loop self pop fitness_scores draws [] st = Inr st"
| "breed_loop self pop fitness_scores draws (k # rest) (new_population, h) =
     (case breed_pair self pop fitness_scores h (draws k) of
        Inl e \<Rightarrow> Inl e
      | Inr (children, h') \<Rightarrow>
          breed_loop self pop fitness_scores draws rest (new_population @ children, h'))"

record GAState =
  population :: "individual list"
  store :: heap
  best_fitness :: xreal
  best_solution :: "individual option"

definition generation_step ::
  "PlacementOptimizer \<Rightarrow> GardenZone list \<Rightarrow> (nat \<Rightarrow> PairDraws) \<Rightarrow> GAState \<Rightarrow> error + GAState" where
  "generation_step self garden_zones draws st =
     (case evaluate_population (store st) garden_zones (population st)
             ([], best_fitness st, best_solution st) of
        Inl e \<Rightarrow> Inl e
      | Inr (fitness_scores, best_fit, best_sol) \<Rightarrow>
          (case breed_loop self (population st) fitness_scores draws
                  [0..<population_size self div 2] ([], store st) of
             Inl e \<Rightarrow> Inl e
           | Inr (new_population, h) \<Rightarrow>
               Inr \<lparr>population = take (population_size self) new_population, store = h,
                     best_fitness = best_fit, best_solution = best_sol\<rparr>))"

text \<open>
  The loop over the generations, from the initial population; \<open>draws g\<close> are the draws
  of generation \<open>g\<close>.
\<close>

fun run_generations ::
  "PlacementOptimizer \<Rightarrow> GardenZone list \<Rightarrow> (nat \<Rightarrow> nat \<Rightarrow> PairDraws) \<Rightarrow> nat list \<Rightarrow> GAState
     \<Rightarrow> error + GAState" where
  "run_generations self garden_zones draws [] st = Inr st"
| "run_generations self garden_zones draws (g # rest) st =
     (case generation_step self garden_zones (draws g) st of
        Inl e \<Rightarrow> Inl e
      | Inr st' \<Rightarrow> run_generations self garden_zones draws rest st')"

text \<open>
  \<^verbatim>\<open>optimize_placement_genetic\<close> after \<^verbatim>\<open>_initialize_population\<close>: the returned
  list is read through the final store.
\<close>

definition optimize_placement_genetic ::
  "PlacementOptimizer \<Rightarrow> GardenZone list \<Rightarrow> (nat \<Rightarrow> nat \<Rightarrow> PairDraws) \<Rightarrow> individual list \<Rightarrow> heap
     \<Rightarrow> error + PlantPlacement list option" where
  "optimize_placement_genetic self garden_zones draws initial_population h =
     (case run_generations self garden_zones draws [0..<generations self]
             \<lparr>population = initial_population, store = h, best_fitness = MInf,
              best_solution = None\<rparr> of
        Inl e \<Rightarrow> Inl e
      | Inr st \<Rightarrow> Inr (map_option (map (store st)) (best_solution st)))"

subsection \<open>An example generation\<close>

text \<open>
  Four candidates of one tomato each, all placed at the centre of the sample zone; every
  tournament is won by its first index, no crossover is drawn, and the mutation of the
  first child is drawn with a jitter of (0.25, -0.25).
\<close>

definition example_optimizer :: PlacementOptimizer where
  "example_optimizer =
     \<lparr>population_size = 4, generations = 1, mutation_rate = 0.1, crossover_rate = 0.8\<rparr>"

definition example_heap :: heap where
  "example_heap a = placed ''Tomato_1000'' tomato 0 0"

definition example_jitter :: jitter where
  "example_jitter i = (0.05, 0.25, - 0.25)"

definition example_draws :: "nat \<Rightarrow> PairDraws" where
  "example_draws k =
     \<lparr>tournament1 = [0, 2, 3], tournament2 = [2, 3, 0], crossover_random = 0.9,
      crossover_point_draw = 0, mutation_random1 = 0.05, jitter1 = example_jitter,
      mutation_random2 = 0.5, jitter2 = example_jitter\<rparr>"

definition example_state :: GAState where
  "example_state =
     \<lparr>population = [[0], [2], [4], [6]], store = example_heap, best_fitness = MInf,
      best_solution = None\<rparr>"

section \<open>Clustering engine (app/services/clustering\_engine.py)\<close>

subsection \<open>optimize\_equipment\_selection\<close>

text \<open>The enumeration \<^verbatim>\<open>EquipmentType\<close>, in the order of its declaration.\<close>

datatype EquipmentType = DRIP | SPRINKLER | MICROJET | ROTOR | SPRAY

definition all_equipment_types :: "EquipmentType list" where
  "all_equipment_types = [DRIP, SPRINKLER, MICROJET, ROTOR, SPRAY]"

record CatalogEntry =
  entry_name :: string
  entry_flow_rate_lph :: real
  entry_spacing_m :: real
  entry_cost_per_unit :: real

definition catalog_entry :: "string \<Rightarrow> real \<Rightarrow> real \<Rightarrow> real \<Rightarrow> CatalogEntry" where
  "catalog_entry n f sp c =
     \<lparr>entry_name = n, entry_flow_rate_lph = f, entry_spacing_m = sp, entry_cost_per_unit = c\<rparr>"

text \<open>The degree sign of the spray head names, as its two UTF-8 bytes.\<close>

definition degree_sign :: string where
  "degree_sign = [CHR 0xC2, CHR 0xB0]"

text \<open>\<^verbatim>\<open>self.equipment_database\<close>: a dictionary with three of the five types as keys.\<close>

fun equipment_database :: "EquipmentType \<Rightarrow> CatalogEntry list option" where
  "equipment_database DRIP = Some
     [catalog_entry ''Drip Emitter 2LPH'' 2.0 0.3 0.5,
      catalog_entry ''Drip Emitter 4LPH'' 4.0 0.4 0.6,
      catalog_entry ''Drip Emitter 8LPH'' 8.0 0.5 0.8]"
| "equipment_database SPRINKLER = Some
     [catalog_entry (''Spray Head 360'' @ degree_sign) 50.0 3.0 2.5,
      catalog_entry (''Spray Head 180'' @ degree_sign) 30.0 2.5 2.0,
      catalog_entry (''Spray Head 90'' @ degree_sign) 20.0 2.0 1.8]"
| "equipment_database MICROJET = Some
     [catalog_entry ''Microjet 15LPH'' 15.0 1.5 1.2,
      catalog_entry ''Microjet 25LPH'' 25.0 2.0 1.5,
      catalog_entry ''Microjet 40LPH'' 40.0 2.5 2.0]"
| "equipment_database ROTOR = None"
| "equipment_database SPRAY = None"

text \<open>\<^verbatim>\<open>str.lower\<close> on ASCII letters.\<close>

definition lower_char :: "char \<Rightarrow> char" where
  "lower_char c =
     (if 65 \<le> (of_char c :: nat) \<and> (of_char c :: nat) \<le> 90
      then char_of ((of_char c :: nat) + 32) else c)"

definition water_factor_of :: "string \<Rightarrow> real" where
  "water_factor_of water_needs =
     (let w = map lower_char water_needs
      in if w = ''low'' then 0.7
         else if w = ''moderate'' then 1.0
         else if w = ''high'' then 1.3
         else 1.0)"

text \<open>
  The state of the search is (best\_equipment, best\_cost, best\_coverage). The body of
  the inner loop, for one catalogue entry: a budget of \<open>None\<close> or 0 is falsy and is
  not checked; the coverage efficiency divides by the zone area.
\<close>

type_synonym selection = "CatalogEntry option \<times> xreal \<times> real"

definition equipment_step ::
  "real \<Rightarrow> real \<Rightarrow> real option \<Rightarrow> selection \<Rightarrow> CatalogEntry \<Rightarrow> error + selection" where
  "equipment_step zone_area_m2 required_flow_lph budget_constraint st equipment =
     (case st of (best_equipment, best_cost, best_coverage) \<Rightarrow>
        let coverage_per_unit = (entry_spacing_m equipment) ^ 2;
            units_needed = \<lceil>zone_area_m2 / coverage_per_unit\<rceil>;
            total_flow = real_of_int units_needed * entry_flow_rate_lph equipment;
            total_cost = real_of_int units_needed * entry_cost_per_unit equipment
        in if (case budget_constraint of None \<Rightarrow> False | Some b \<Rightarrow> b \<noteq> 0 \<and> total_cost > b)
           then Inr st
           else if total_flow \<ge> required_flow_lph * 0.8 then
             (if zone_area_m2 = 0 then Inl ZeroDivisionError
              else
                let coverage_efficiency =
                      min 1.0 ((real_of_int units_needed * coverage_per_unit) / zone_area_m2)
                in if xless (Fin total_cost) best_cost
                      \<or> (Fin total_cost = best_cost \<and> coverage_efficiency > best_coverage)
                   then Inr (Some equipment, Fin total_cost, coverage_efficiency)
                   else Inr st)
           else Inr st)"

fun equipment_loop ::
  "real \<Rightarrow> real \<Rightarrow> real option \<Rightarrow> selection \<Rightarrow> CatalogEntry list \<Rightarrow> error + selection" where
  "equipment_loop zone_area_m2 required_flow_lph budget_constraint st [] = Inr st"
| "equipment_loop zone_area_m2 required_flow_lph budget_constraint st (equipment # rest) =
     (case equipment_step zone_area_m2 required_flow_lph budget_constraint st equipment of
        Inl e \<Rightarrow> Inl e
      | Inr st' \<Rightarrow> equipment_loop zone_area_m2 required_flow_lph budget_constraint st' rest)"

text \<open>
  The outer loop \<^verbatim>\<open>for eq_type in equipment_types\<close>. The loop variable
  \<^verbatim>\<open>eq_type\<close> is part of the state, because the function reads it after the loop;
  it is unbound (\<open>None\<close>) before the first iteration.
\<close>

fun type_loop ::
  "real \<Rightarrow> real \<Rightarrow> real option \<Rightarrow> selection \<times> EquipmentType option \<Rightarrow> EquipmentType list
     \<Rightarrow> error + (selection \<times> EquipmentType option)" where
  "type_loop zone_area_m2 required_flow_lph budget_constraint st [] = Inr st"
| "type_loop zone_area_m2 required_flow_lph budget_constraint (sel, eq_type_before) (eq_type # rest) =
     (case equipment_database eq_type of
        None \<Rightarrow> type_loop zone_area_m2 required_flow_lph budget_constraint (sel, Some eq_type) rest
      | Some entries \<Rightarrow>
          (case equipment_loop zone_area_m2 required_flow_lph budget_constraint sel entries of
             Inl e \<Rightarrow> Inl e
           | Inr sel' \<Rightarrow>
               type_loop zone_area_m2 required_flow_lph budget_constraint (sel', Some eq_type) rest))"

text \<open>
  The schema class \<^verbatim>\<open>IrrigationEquipment\<close>, with the fields the function sets to
  something other than a constant that passes validation. The class declares
  \<^verbatim>\<open>id: UUID\<close>, \<^verbatim>\<open>created_at: datetime\<close> and \<^verbatim>\<open>updated_at: datetime\<close>; a time is
  a number here.
\<close>

record IrrigationEquipment =
  equipment_id :: string
  equipment_name :: string
  equipment_type :: EquipmentType
  equipment_flow_rate_lph :: real
  coverage_radius_m :: real
  equipment_spacing_m :: real
  equipment_cost_per_unit :: real
  created_at :: "nat option"
  updated_at :: "nat option"

text \<open>
  The validation that the constructor of the schema class runs on its keyword
  arguments: the id must be the text of a UUID (32 hexadecimal digits, with or without
  hyphens), and the two times must not be \<^verbatim>\<open>None\<close>.
\<close>

definition is_hex_digit :: "char \<Rightarrow> bool" where
  "is_hex_digit c = (c \<in> set ''0123456789abcdefABCDEF'')"

definition is_uuid_string :: "string \<Rightarrow> bool" where
  "is_uuid_string s =
     (let h = filter (\<lambda>c. c \<noteq> CHR ''-'') s
      in length h = 32 \<and> list_all is_hex_digit h)"

definition validate_IrrigationEquipment :: "IrrigationEquipment \<Rightarrow> error + IrrigationEquipment" where
  "validate_IrrigationEquipment kwargs =
     (if is_uuid_string (equipment_id kwargs) \<and> created_at kwargs \<noteq> None \<and> updated_at kwargs \<noteq> None
      then Inr kwargs else Inl ValidationError)"

record EquipmentSelectionResult =
  recommended_equipment :: IrrigationEquipment
  quantity_needed :: int
  selection_total_cost :: xreal
  coverage_efficiency :: real

text \<open>
  The function up to the construction of the result: the keyword arguments given to
  \<^verbatim>\<open>IrrigationEquipment\<close>, then \<open>quantity_needed\<close>, \<open>total_cost\<close> and
  \<open>coverage_efficiency\<close>.
\<close>

definition equipment_arguments ::
  "real \<Rightarrow> string \<Rightarrow> real option \<Rightarrow> EquipmentType option
     \<Rightarrow> error + (IrrigationEquipment \<times> int \<times> xreal \<times> real)" where
  "equipment_arguments zone_area_m2 water_needs budget_constraint preferred_equipment_type =
     (let water_factor = water_factor_of water_needs;
          base_flow_per_m2 = 2.0;
          required_flow_lph = zone_area_m2 * base_flow_per_m2 * water_factor;
          equipment_types = (case preferred_equipment_type of
                               Some t \<Rightarrow> [t] | None \<Rightarrow> all_equipment_types)
      in case type_loop zone_area_m2 required_flow_lph budget_constraint
                ((None, PInf, 0.0), None) equipment_types of
           Inl e \<Rightarrow> Inl e
         | Inr ((None, best_cost, best_coverage), eq_type) \<Rightarrow> Inl NoSuitableEquipment
         | Inr ((Some best_equipment, best_cost, best_coverage), None) \<Rightarrow> Inl NameError
         | Inr ((Some best_equipment, best_cost, best_coverage), Some eq_type) \<Rightarrow>
             let coverage_per_unit = (entry_spacing_m best_equipment) ^ 2;
                 units_needed = \<lceil>zone_area_m2 / coverage_per_unit\<rceil>
             in Inr (\<lparr>equipment_id = ''temp_id'',
                      equipment_name = entry_name best_equipment,
                      equipment_type = eq_type,
                      equipment_flow_rate_lph = entry_flow_rate_lph best_equipment,
                      coverage_radius_m = entry_spacing_m best_equipment / 2,
                      equipment_spacing_m = entry_spacing_m best_equipment,
                      equipment_cost_per_unit = entry_cost_per_unit best_equipment,
                      created_at = None, updated_at = None\<rparr>,
                     units_needed, best_cost, best_coverage))"

definition optimize_equipment_selection ::
  "real \<Rightarrow> string \<Rightarrow> real option \<Rightarrow> EquipmentType option \<Rightarrow> error + EquipmentSelectionResult" where
  "optimize_equipment_selection zone_area_m2 water_needs budget_constraint preferred_equipment_type =
     (case equipment_arguments zone_area_m2 water_needs budget_constraint preferred_equipment_type of
        Inl e \<Rightarrow> Inl e
      | Inr (kwargs, units_needed, best_cost, best_coverage) \<Rightarrow>
          (case validate_IrrigationEquipment kwargs of
             Inl e \<Rightarrow> Inl e
           | Inr equipment \<Rightarrow>
               Inr \<lparr>recommended_equipment = equipment,
                     quantity_needed = units_needed,
                     selection_total_cost = best_cost,
                     coverage_efficiency = best_coverage\<rparr>))"

subsection \<open>kmeans\_clustering\<close>




















section \<open>Properties of the agronomic calculator\<close>

lemma spacing_factors_pos:
  "0 < spacing_water_factor w" "0 < spacing_sun_factor s"
  by (cases w; simp) (cases s; simp)

lemma calculate_optimal_spacing_raises:
  "calculate_optimal_spacing p q = Inl TypeError"
  by (simp add: calculate_optimal_spacing_def lru_cache_def plant_specs_hashable_def)

lemma calculate_optimal_spacing_wrapped_ge_min:
  "spacing_min p \<le> calculate_optimal_spacing_wrapped p q"
  by (simp add: calculate_optimal_spacing_wrapped_def Let_def)

lemma calculate_optimal_spacing_wrapped_mono:
  assumes "0 \<le> spacing_optimal p" and "q1 \<le> q2"
  shows "calculate_optimal_spacing_wrapped p q1 \<le> calculate_optimal_spacing_wrapped p q2"
proof -
  let ?c = "spacing_water_factor (water_need p) * spacing_sun_factor (sun_exposure p)"
  have c: "0 \<le> ?c"
    by (simp add: spacing_factors_pos less_imp_le)
  have "0.8 + q1 * 0.4 \<le> 0.8 + q2 * 0.4"
    using assms(2) by simp
  then have "spacing_optimal p * (0.8 + q1 * 0.4) \<le> spacing_optimal p * (0.8 + q2 * 0.4)"
    using assms(1) by (rule mult_left_mono)
  then have "spacing_optimal p * (0.8 + q1 * 0.4) * ?c \<le> spacing_optimal p * (0.8 + q2 * 0.4) * ?c"
    using c by (rule mult_right_mono)
  then show ?thesis
    by (simp add: calculate_optimal_spacing_wrapped_def Let_def mult.assoc max.coboundedI1)
qed

text \<open>
  Claim C1. The claim: the spacing is monotonically non-increasing in the soil quality
  and at least \<open>spacing_min\<close>. On the plant of the repository's own test the call
  raises TypeError at both soil qualities, the cache being given an unhashable
  \<^verbatim>\<open>PlantSpecs\<close>; and the wrapped body gives poor soil (0.3) a strictly smaller spacing
  than good soil (0.8), where the test asserts \<^verbatim>\<open>spacing_poor > spacing_good\<close> and the
  source comment says "better soil = closer spacing". The body is at least
  \<open>spacing_min\<close> (\<open>calculate_optimal_spacing_wrapped_ge_min\<close>) and, for a non-negative
  \<open>spacing_optimal\<close>, non-decreasing in the soil quality
  (\<open>calculate_optimal_spacing_wrapped_mono\<close>).
\<close>

theorem C1_spacing_grows_with_soil_quality:
  "calculate_optimal_spacing_wrapped sample_plant_specs 0.3
     < calculate_optimal_spacing_wrapped sample_plant_specs 0.8
   \<and> calculate_optimal_spacing sample_plant_specs 0.3 = Inl TypeError
   \<and> calculate_optimal_spacing sample_plant_specs 0.8 = Inl TypeError"
  by (simp add: calculate_optimal_spacing_raises)
     (simp add: calculate_optimal_spacing_wrapped_def sample_plant_specs_def Let_def)

section \<open>Properties of the hydraulic engine\<close>

subsection \<open>The laminar friction factor\<close>

text \<open>
  Claim C5. The claim: for every Reynolds number below 2300 the function returns exactly
  64/Re. The division raises ZeroDivisionError at Re = 0, which is below 2300; for every
  other Reynolds number below 2300 the function returns 64/Re, whatever the relative
  roughness and the minimiser.
\<close>

theorem C5_laminar_friction_factor:
  assumes "reynolds_number < 2300" and "reynolds_number \<noteq> 0"
  shows "calculate_friction_factor minimize_colebrook reynolds_number relative_roughness
           = Inr (64 / reynolds_number)"
  using assms by (simp add: calculate_friction_factor_def)

theorem C5_laminar_friction_factor_witness:
  "(1000::real) < 2300 \<and> (1000::real) \<noteq> 0
   \<and> calculate_friction_factor failing_minimizer 1000 0.001 = Inr (64 / 1000)"
  using C5_laminar_friction_factor [of 1000 failing_minimizer "0.001"] by simp

theorem C5_zero_reynolds_counterexample:
  "(0::real) < 2300 \<and> calculate_friction_factor failing_minimizer 0 0.001 = Inl ZeroDivisionError"
  by (simp add: calculate_friction_factor_def)

subsection \<open>The scan over the standard diameters\<close>





lemma acceptable_example_16: "acceptable failing_minimizer 10 50 PVC 0.0016 16"
proof -
  have p: "2 \<le> pi" "pi < 4" using pi_ge_two pi_less_4 by auto
  have re: "calculate_reynolds_number (10 / (1000 * 3600) / (pi * (16 / 1000 / 2) ^ 2)) (16/1000) < 2300"
    using p by (simp add: calculate_reynolds_number_def WATER_DENSITY_def WATER_VISCOSITY_def field_simps power2_eq_square)
  have re0: "calculate_reynolds_number (10 / (1000 * 3600) / (pi * (16 / 1000 / 2) ^ 2)) (16/1000) \<noteq> 0"
    using p by (simp add: calculate_reynolds_number_def WATER_DENSITY_def WATER_VISCOSITY_def field_simps power2_eq_square)
  show ?thesis
    using p re re0
    apply (simp add: acceptable_def candidate_pressure_loss_def calculate_pressure_loss_darcy_weisbach_def
      calculate_friction_factor_def Let_def)
    apply (simp add: calculate_reynolds_number_def WATER_DENSITY_def WATER_VISCOSITY_def field_simps power2_eq_square)
    done
qed



subsection \<open>The network calculation\<close>

lemma pipe_hydraulics_raises: "pipe_hydraulics m pipe = Inl AttributeError"
  by (simp add: pipe_hydraulics_def pipe_diameter_m_def)

lemma network_raises:
  "pipes \<noteq> [] \<Longrightarrow> calculate_network_hydraulics m zones pipes sp sf = Inl AttributeError"
  by (cases pipes) (simp_all add: calculate_network_hydraulics_def pipe_hydraulics_raises Let_def)

text \<open>
  Without pipes the function returns: the final pressure is the source pressure, the
  system is viable exactly from 1.0 bar on, and the flow warning is present exactly when
  the zones' required flow exceeds the source flow.
\<close>

lemma network_without_pipes:
  "\<exists>r. calculate_network_hydraulics m zones [] sp sf = Inr r
       \<and> final_pressure_bar r = sp
       \<and> is_system_viable r = (1 \<le> sp)
       \<and> ((\<exists>w \<in> set (warnings r). is_flow_warning w)
            \<longleftrightarrow> sum_list (map zone_required_flow_lph zones) > sf)"
  by (auto simp: calculate_network_hydraulics_def Let_def)

text \<open>
  Claim C2. The claim: for every zone list and pipe list the function returns a result
  that is viable exactly when the source pressure minus the pipe losses is at least 1.0
  bar, with the flow warning exactly when the demand exceeds the source. For the example
  of the specification with one lateral pipe of 16 mm, 50 m and 10 LPH, whose loss by
  the formulas of \<open>optimize_pipe_diameter\<close> is at most 0.0016 bar, the function does
  not return: it raises AttributeError at \<^verbatim>\<open>pipe.diameter_m\<close>, as for every
  non-empty pipe list (\<open>network_raises\<close>).
\<close>

theorem C2_network_raises_attribute_error:
  "calculate_network_hydraulics failing_minimizer example_zones [example_pipe] 3 500
     = Inl AttributeError
   \<and> acceptable failing_minimizer (pipe_flow_rate_lph example_pipe) (pipe_length_m example_pipe)
        (pipe_material example_pipe) 0.0016 16"
  using acceptable_example_16
  by (simp add: network_raises) (simp add: example_pipe_def)

section \<open>Properties of the conflict detector\<close>

subsection \<open>The spacing loop\<close>

lemma spacing_loop_raises: "prs \<noteq> [] \<Longrightarrow> spacing_loop prs = Inl TypeError"
proof (cases prs)
  case Nil
  assume "prs \<noteq> []"
  with Nil show ?thesis by simp
next
  case (Cons pr rest)
  obtain placement1 placement2 where "pr = (placement1, placement2)" by (cases pr)
  with Cons show ?thesis
    by (simp add: calculate_optimal_spacing_raises Let_def)
qed

lemma pairs_nonempty: "2 \<le> length ps \<Longrightarrow> pairs ps \<noteq> []"
proof (cases ps)
  case Nil
  assume "2 \<le> length ps"
  with Nil show ?thesis by simp
next
  case (Cons p rest)
  assume "2 \<le> length ps"
  with Cons have "rest \<noteq> []" by auto
  with Cons show ?thesis by simp
qed

lemma detect_conflicts_raises:
  "2 \<le> length placements \<Longrightarrow> detect_conflicts placements garden_zones = Inl TypeError"
  by (simp add: detect_conflicts_def spacing_loop_raises pairs_nonempty)

subsection \<open>The compatibility loop\<close>

lemma set_pairs:
  "set (pairs ps) = {(ps ! i, ps ! j) | i j. i < j \<and> j < length ps}"
proof (induction ps)
  case Nil
  then show ?case by simp
next
  case (Cons p ps)
  have "set (pairs (p # ps)) = (Pair p ` set ps) \<union> set (pairs ps)" by simp
  also have "\<dots> = {((p # ps) ! i, (p # ps) ! j) | i j. i < j \<and> j < length (p # ps)}" (is "?L = ?R")
  proof (rule set_eqI, rule iffI)
    fix x assume "x \<in> ?L"
    then consider q where "q \<in> set ps" "x = (p, q)" | "x \<in> set (pairs ps)" by auto
    then show "x \<in> ?R"
    proof cases
      case 1
      then obtain k where "k < length ps" "q = ps ! k" by (auto simp: in_set_conv_nth)
      with 1 have "x = ((p # ps) ! 0, (p # ps) ! Suc k) \<and> 0 < Suc k \<and> Suc k < length (p # ps)" by simp
      then show ?thesis by blast
    next
      case 2
      with Cons.IH obtain i j where "x = (ps ! i, ps ! j)" "i < j" "j < length ps" by auto
      then have "x = ((p # ps) ! Suc i, (p # ps) ! Suc j) \<and> Suc i < Suc j \<and> Suc j < length (p # ps)" by simp
      then show ?thesis by blast
    qed
  next
    fix x assume "x \<in> ?R"
    then obtain i j where ij: "x = ((p # ps) ! i, (p # ps) ! j)" "i < j" "j < length (p # ps)" by auto
    then obtain j' where j': "j = Suc j'" by (cases j) auto
    show "x \<in> ?L"
    proof (cases i)
      case 0
      with ij j' show ?thesis by auto
    next
      case (Suc i')
      with ij j' have "x = (ps ! i', ps ! j')" "i' < j'" "j' < length ps" by auto
      with Cons.IH show ?thesis by auto
    qed
  qed
  finally show ?case .
qed

text \<open>
  The compatibility loop by itself records exactly the pairs of which one lists the
  other's name as incompatible and whose distance is less than 2 m.
\<close>

lemma compatibility_loop_records:
  "r \<in> set (compatibility_loop placements) \<longleftrightarrow>
     (\<exists>i j. i < j \<and> j < length placements
        \<and> lists_incompatible (placements ! i) (placements ! j)
        \<and> distance (placements ! i) (placements ! j) < 2
        \<and> r = compatibility_record (placements ! i) (placements ! j))"
  unfolding compatibility_loop_def
  by (auto simp: set_pairs compatibility_violation_of_def split: if_splits)

lemma close_pair_distance: "distance (close_pair ! 0) (close_pair ! 1) < 2"
  by (simp add: close_pair_def placed_def distance_def real_less_lsqrt)

lemma far_pair_distance: "\<not> distance (far_pair ! 0) (far_pair ! 1) < 2"
proof -
  have "2 \<le> sqrt 9" by (rule real_le_rsqrt) simp
  then show ?thesis by (simp add: far_pair_def placed_def distance_def not_less)
qed

lemma compatibility_loop_examples:
  "compatibility_loop close_pair = [compatibility_record (close_pair ! 0) (close_pair ! 1)]"
  "compatibility_loop far_pair = []"
proof -
  have inc: "lists_incompatible (placed a tomato x1 y1) (placed b potato x2 y2)" for a b x1 y1 x2 y2
    by (simp add: placed_def lists_incompatible_def tomato_def potato_def)
  show "compatibility_loop close_pair = [compatibility_record (close_pair ! 0) (close_pair ! 1)]"
    using close_pair_distance
    by (simp add: compatibility_loop_def compatibility_violation_of_def close_pair_def inc)
  show "compatibility_loop far_pair = []"
    using far_pair_distance
    by (simp add: compatibility_loop_def compatibility_violation_of_def far_pair_def inc)
qed

text \<open>
  Claim C7. The claim: \<open>detect_conflicts\<close> records the compatibility violation of two
  mutually incompatible plants 0.5 m apart. On the placements of the repository's test
  \<^verbatim>\<open>test_detect_conflicts\<close>, which asserts that a compatibility violation is reported,
  and on the example of the specification, the function records nothing: its first
  loop calls \<^verbatim>\<open>calculate_optimal_spacing\<close> for the first pair and the TypeError of the
  cache leaves the function, as for every list of two or more placements
  (\<open>detect_conflicts_raises\<close>). The compatibility loop, which is not reached, would
  record the pair (\<open>compatibility_loop_examples\<close>).
\<close>

theorem C7_detect_conflicts_raises_type_error:
  "detect_conflicts test_conflict_placements [sample_garden_zone] = Inl TypeError
   \<and> detect_conflicts close_pair [sample_garden_zone] = Inl TypeError"
  by (simp add: detect_conflicts_raises test_conflict_placements_def close_pair_def)

subsection \<open>Water conflicts\<close>

lemma detect_water_conflicts_nth:
  "detect_water_conflicts ps =
     concat (map (\<lambda>i. water_conflict_of (ps ! i) (drop (Suc i) ps)) [0..<length ps])"
proof (induction ps)
  case Nil
  then show ?case by simp
next
  case (Cons p ps)
  have "[0..<length (p # ps)] = 0 # map Suc [0..<length ps]"
    by (simp add: upt_conv_Cons map_Suc_upt del: upt_Suc)
  then show ?case
    using Cons.IH by (simp add: comp_def del: upt_Suc)
qed

lemma water_conflict_of_later:
  "i < length ps \<Longrightarrow> water_conflict_of (ps ! i) (drop (Suc i) ps) =
     (if water_need (plant_specs (ps ! i)) = HIGH \<and> length (later_high_water ps i) > 2
      then [water_competition (plant_id (ps ! i) # later_high_water ps i)] else [])"
  by (cases "water_need (plant_specs (ps ! i)) = HIGH")
     (simp_all add: water_conflict_of_def high_water_plants_of_def later_high_water_def
        water_competition_def Let_def)

text \<open>
  Claim C6, as amended. The claim: a conflict is recorded for each plant with more than
  two other high-water plants within 1 m, whatever its own tier and its position. The
  water check \<^verbatim>\<open>_detect_water_conflicts\<close> records a conflict for the placement at index
  \<open>i\<close> exactly when that placement is itself high-water and more than two high-water
  placements after it in the list are less than 1 m away; the record names it, then
  those later placements.
\<close>

theorem C6_water_conflicts_later_high:
  "detect_water_conflicts placements =
     concat (map (\<lambda>i.
        if water_need (plant_specs (placements ! i)) = HIGH \<and> length (later_high_water placements i) > 2
        then [water_competition (plant_id (placements ! i) # later_high_water placements i)]
        else []) [0..<length placements])"
proof -
  have "map (\<lambda>i. water_conflict_of (placements ! i) (drop (Suc i) placements)) [0..<length placements]
      = map (\<lambda>i. if water_need (plant_specs (placements ! i)) = HIGH \<and> length (later_high_water placements i) > 2
          then [water_competition (plant_id (placements ! i) # later_high_water placements i)]
          else []) [0..<length placements]"
    by (rule map_cong) (simp_all add: water_conflict_of_later)
  then show ?thesis
    by (simp only: detect_water_conflicts_nth)
qed

lemma distance_same [simp]: "distance (placed a s 0 0) (placed b t 0 0) = 0"
  by (simp add: distance_def placed_def)

theorem C6_water_conflicts_later_high_witness:
  "detect_water_conflicts crowded_all_high
     = [water_competition [''cucumber_1'', ''cucumber_2'', ''cucumber_3'', ''cucumber_4'']]"
proof -
  have len: "[0..<length crowded_all_high] = [0, 1, 2, 3]"
    by (simp add: crowded_all_high_def upt_rec)
  show ?thesis
    unfolding C6_water_conflicts_later_high [of crowded_all_high] len
    by (simp add: crowded_all_high_def later_high_water_def)
       (simp add: placed_def thirsty_def)
qed

text \<open>
  The claim as stated fails: for a low-water plant followed by three high-water plants
  at the same point, \<open>detect_conflicts\<close> raises TypeError in its spacing loop and records
  nothing, and the water check by itself gives that plant no conflict; of four
  high-water plants at the same point the water check gives only the first a conflict.
\<close>

theorem C6_water_conflicts_counterexample:
  "detect_conflicts crowded_low_first [sample_garden_zone] = Inl TypeError
   \<and> detect_water_conflicts crowded_low_first = []
   \<and> detect_water_conflicts crowded_all_high
       = [water_competition [''cucumber_1'', ''cucumber_2'', ''cucumber_3'', ''cucumber_4'']]"
proof -
  have "detect_conflicts crowded_low_first [sample_garden_zone] = Inl TypeError"
    by (simp add: detect_conflicts_raises crowded_low_first_def)
  moreover have "detect_water_conflicts crowded_low_first = []"
    by (simp add: crowded_low_first_def water_conflict_of_def high_water_plants_of_def Let_def)
       (simp add: placed_def thirsty_def frugal_def)
  moreover have "detect_water_conflicts crowded_all_high
       = [water_competition [''cucumber_1'', ''cucumber_2'', ''cucumber_3'', ''cucumber_4'']]"
    by (simp add: crowded_all_high_def water_conflict_of_def high_water_plants_of_def Let_def
          water_competition_def)
       (simp add: placed_def thirsty_def)
  ultimately show ?thesis by simp
qed

section \<open>Properties of the clustering engine\<close>

subsection \<open>The equipment type of the recommendation\<close>

text \<open>
  After the loop over the equipment types the loop variable holds the last type of the
  list, whichever type the best entry came from.
\<close>

lemma type_loop_variable:
  "type_loop a rf b (sel, v) ts = Inr (sel', v') \<Longrightarrow> v' = (if ts = [] then v else Some (last ts))"
proof (induction ts arbitrary: sel v)
  case Nil
  then show ?case by simp
next
  case (Cons t ts)
  show ?case
  proof (cases "equipment_database t")
    case None
    with Cons.prems have "type_loop a rf b (sel, Some t) ts = Inr (sel', v')" by simp
    from Cons.IH [OF this] show ?thesis by simp
  next
    case (Some entries)
    with Cons.prems obtain sel1 where "type_loop a rf b (sel1, Some t) ts = Inr (sel', v')"
      by (auto split: sum.splits)
    from Cons.IH [OF this] show ?thesis by simp
  qed
qed

lemma no_preference_passes_spray:
  assumes "equipment_arguments a w b None = Inr (kwargs, units, cost, coverage)"
  shows "equipment_type kwargs = SPRAY"
proof -
  let ?rf = "a * 2.0 * water_factor_of w"
  from assms obtain sel v where tl: "type_loop a ?rf b ((None, PInf, 0.0), None) all_equipment_types = Inr (sel, v)"
    by (auto simp: equipment_arguments_def Let_def split: sum.splits)
  from type_loop_variable [OF tl] have "v = Some SPRAY"
    by (simp add: all_equipment_types_def)
  with assms tl show ?thesis
    by (auto simp: equipment_arguments_def Let_def split: sum.splits prod.splits option.splits)
qed

lemma preference_passes_preferred:
  assumes "equipment_arguments a w b (Some t) = Inr (kwargs, units, cost, coverage)"
  shows "equipment_type kwargs = t"
proof -
  let ?rf = "a * 2.0 * water_factor_of w"
  from assms obtain sel v where tl: "type_loop a ?rf b ((None, PInf, 0.0), None) [t] = Inr (sel, v)"
    by (auto simp: equipment_arguments_def Let_def split: sum.splits)
  from type_loop_variable [OF tl] have "v = Some t" by simp
  with assms tl show ?thesis
    by (auto simp: equipment_arguments_def Let_def split: sum.splits prod.splits option.splits)
qed

text \<open>
  The keyword arguments never pass the validation of the schema class, so the function
  returns no recommendation for any input.
\<close>

lemma equipment_arguments_invalid:
  assumes "equipment_arguments a w b t = Inr (kwargs, units, cost, coverage)"
  shows "validate_IrrigationEquipment kwargs = Inl ValidationError"
proof -
  from assms have "created_at kwargs = None"
    by (auto simp: equipment_arguments_def Let_def split: sum.splits prod.splits option.splits)
  then show ?thesis by (simp add: validate_IrrigationEquipment_def)
qed

lemma optimize_equipment_selection_never_returns:
  "optimize_equipment_selection a w b t \<noteq> Inr r"
proof (cases "equipment_arguments a w b t")
  case (Inl e)
  then show ?thesis by (simp add: optimize_equipment_selection_def)
next
  case (Inr x)
  obtain kwargs units cost coverage where x: "x = (kwargs, units, cost, coverage)" by (cases x)
  with Inr equipment_arguments_invalid [of a w b t kwargs units cost coverage]
  show ?thesis by (simp add: optimize_equipment_selection_def)
qed













subsection \<open>The sizes of the clusters\<close>












section \<open>Properties of the placement optimizer\<close>

subsection \<open>The tracked best fitness\<close>

lemma xle_refl: "xle a a"
  by (simp add: xle_def)

lemma xless_trans: "xless a b \<Longrightarrow> xless b c \<Longrightarrow> xless a c"
  by (cases a; cases b; cases c) auto

lemma xle_trans: "xle a b \<Longrightarrow> xle b c \<Longrightarrow> xle a c"
  unfolding xle_def using xless_trans by blast

lemma xle_Fin [simp]: "xle (Fin a) (Fin b) \<longleftrightarrow> a \<le> b"
  by (auto simp: xle_def)

lemma evaluate_population_best_mono:
  "evaluate_population h zones pop (scores, bf, bs) = Inr (scores', bf', bs') \<Longrightarrow> xle bf bf'"
proof (induction pop arbitrary: scores bf bs)
  case Nil
  then show ?case by (simp add: xle_refl)
next
  case (Cons individual pop)
  then obtain fitness where f: "calculate_fitness h individual zones = Inr fitness"
    by (auto split: sum.splits)
  show ?case
  proof (cases "xless bf fitness")
    case True
    with Cons.prems f have "evaluate_population h zones pop (scores @ [fitness], fitness, Some individual)
        = Inr (scores', bf', bs')" by simp
    from Cons.IH [OF this] have "xle fitness bf'" .
    moreover from True have "xle bf fitness" by (simp add: xle_def)
    ultimately show ?thesis by (rule xle_trans [rotated])
  next
    case False
    with Cons.prems f have "evaluate_population h zones pop (scores @ [fitness], bf, bs)
        = Inr (scores', bf', bs')" by simp
    from Cons.IH [OF this] show ?thesis .
  qed
qed

lemma generation_step_best_mono:
  assumes "generation_step self zones draws st = Inr st'"
  shows "xle (best_fitness st) (best_fitness st')"
proof -
  from assms obtain scores bf bs where
    ev: "evaluate_population (store st) zones (population st) ([], best_fitness st, best_solution st)
          = Inr (scores, bf, bs)"
    and "best_fitness st' = bf"
    by (auto simp: generation_step_def split: sum.splits prod.splits)
  with evaluate_population_best_mono [OF ev] show ?thesis by simp
qed

lemma run_generations_best_mono:
  "run_generations self zones draws gs st = Inr st' \<Longrightarrow> xle (best_fitness st) (best_fitness st')"
proof (induction gs arbitrary: st)
  case Nil
  then show ?case by (simp add: xle_refl)
next
  case (Cons g gs)
  then obtain st1 where s1: "generation_step self zones (draws g) st = Inr st1"
    "run_generations self zones draws gs st1 = Inr st'"
    by (auto split: sum.splits)
  from generation_step_best_mono [OF s1(1)] Cons.IH [OF s1(2)] show ?case by (rule xle_trans)
qed

text \<open>
  Claim C8. Whenever a generation step completes, the recorded best fitness after the
  step is greater than or equal to its value before the step; hence, whenever a run of
  generations completes, the recorded best fitness at its end is greater than or equal
  to the value at its start. (The order is that of \<open>xreal\<close>: \<open>MInf\<close> is the initial
  \<^verbatim>\<open>float('-inf')\<close>.)
\<close>

theorem C8_best_fitness_non_decreasing:
  "(generation_step self zones draws st = Inr st' \<longrightarrow> xle (best_fitness st) (best_fitness st'))
   \<and> (run_generations self zones all_draws gs st = Inr st'' \<longrightarrow>
        xle (best_fitness st) (best_fitness st''))"
  using generation_step_best_mono run_generations_best_mono by blast

lemma example_in_zone: "is_in_zone (placed i sp 0 0) sample_garden_zone = Inr True"
  by (simp add: is_in_zone_def sample_garden_zone_def placed_def Let_def)

lemma example_zone_penalty: "zone_penalty_of [placed i sp 0 0] [sample_garden_zone] = Inr 0"
  by (simp add: example_in_zone)

lemma example_fitness: "calculate_fitness example_heap [a] [sample_garden_zone] = Inr (Fin 10)"
  by (simp add: calculate_fitness_def example_heap_def example_zone_penalty Let_def del: zone_penalty_of.simps)

text \<open>A candidate of two or more placements has no fitness: the spacing loop raises.\<close>

lemma calculate_fitness_raises:
  "2 \<le> length individual \<Longrightarrow> calculate_fitness h individual garden_zones = Inl TypeError"
proof -
  assume l: "2 \<le> length individual"
  then have "individual \<noteq> []" by auto
  moreover have "spacing_penalty_loop (pairs (map h individual)) = Inl TypeError"
  proof (cases "pairs (map h individual)")
    case Nil
    with pairs_nonempty [of "map h individual"] l show ?thesis by simp
  next
    case (Cons pr rest)
    obtain placement1 placement2 where "pr = (placement1, placement2)" by (cases pr)
    with Cons show ?thesis by (simp add: calculate_optimal_spacing_raises Let_def)
  qed
  ultimately show ?thesis by (simp add: calculate_fitness_def Let_def)
qed

lemma example_evaluation:
  "evaluate_population example_heap [sample_garden_zone] [[0], [2], [4], [6]] ([], MInf, None)
     = Inr ([Fin 10, Fin 10, Fin 10, Fin 10], Fin 10, Some [0])"
  by (simp add: example_fitness)

lemma example_tournaments:
  "tournament_selection [[0], [2], [4], [6]] [Fin 10, Fin 10, Fin 10, Fin 10] [0, 2, 3] = Inr [0]"
  "tournament_selection [[0], [2], [4], [6]] [Fin 10, Fin 10, Fin 10, Fin 10] [2, 3, 0] = Inr [4]"
  by (simp_all add: tournament_selection_def xmax_def Let_def)

lemma example_mutate:
  "mutate h [0] example_jitter = ([0], jitter_placement h 0 0.25 (- 0.25))"
  by (simp add: mutate_def example_jitter_def Let_def)

lemma example_breed_pair:
  "breed_pair example_optimizer [[0], [2], [4], [6]] [Fin 10, Fin 10, Fin 10, Fin 10] h (example_draws k)
     = Inr ([[0], [4]], jitter_placement h 0 0.25 (- 0.25))"
  by (simp add: breed_pair_def example_tournaments example_draws_def example_optimizer_def example_mutate)

lemma example_generation:
  "generation_step example_optimizer [sample_garden_zone] example_draws example_state
     = Inr \<lparr>population = [[0], [4], [0], [4]],
            store = jitter_placement (jitter_placement example_heap 0 0.25 (- 0.25)) 0 0.25 (- 0.25),
            best_fitness = Fin 10, best_solution = Some [0]\<rparr>"
proof -
  have ev: "evaluate_population (store example_state) [sample_garden_zone] (population example_state)
              ([], best_fitness example_state, best_solution example_state)
            = Inr ([Fin 10, Fin 10, Fin 10, Fin 10], Fin 10, Some [0])"
    by (simp add: example_state_def example_evaluation del: evaluate_population.simps)
  have idx: "[0..<population_size example_optimizer div 2] = [0, Suc 0]"
    by (simp add: example_optimizer_def upt_rec)
  have br: "breed_loop example_optimizer (population example_state) [Fin 10, Fin 10, Fin 10, Fin 10]
              example_draws [0..<population_size example_optimizer div 2] ([], store example_state)
            = Inr ([[0], [4], [0], [4]],
                   jitter_placement (jitter_placement example_heap 0 0.25 (- 0.25)) 0 0.25 (- 0.25))"
    unfolding idx by (simp add: example_state_def example_breed_pair)
  have "take (population_size example_optimizer) [[0], [4], [0], [4]] = [[0::nat], [4], [0], [4]]"
    by (simp add: example_optimizer_def)
  then show ?thesis
    by (simp add: generation_step_def ev br)
qed

theorem C8_best_fitness_non_decreasing_witness:
  "\<exists>st'. generation_step example_optimizer [sample_garden_zone] example_draws example_state = Inr st'
     \<and> run_generations example_optimizer [sample_garden_zone] (\<lambda>g. example_draws) [0] example_state
           = Inr st'
     \<and> best_fitness example_state = MInf \<and> best_fitness st' = Fin 10
     \<and> xle (best_fitness example_state) (best_fitness st')"
proof -
  let ?st' = "\<lparr>population = [[0], [4], [0], [4]],
            store = jitter_placement (jitter_placement example_heap 0 0.25 (- 0.25)) 0 0.25 (- 0.25),
            best_fitness = Fin 10, best_solution = Some [0::nat]\<rparr>"
  have run: "run_generations example_optimizer [sample_garden_zone] (\<lambda>g. example_draws) [0] example_state
           = Inr ?st'"
    by (simp add: example_generation)
  from C8_best_fitness_non_decreasing
    [of example_optimizer "[sample_garden_zone]" example_draws example_state ?st'
        "\<lambda>g. example_draws" "[0]" ?st']
    example_generation run
  have "xle (best_fitness example_state) (best_fitness ?st')" by blast
  with example_generation run show ?thesis
    by (simp add: example_state_def)
qed

subsection \<open>Mutation and the shared placements\<close>

lemma mutate_same_addresses: "fst (mutate h individual jit) = individual"
  by (simp add: mutate_def Let_def)

text \<open>
  Claim C10. The claim: \<^verbatim>\<open>_mutate\<close> leaves the coordinates of the placements of
  its input candidate unchanged. \<^verbatim>\<open>individual.copy()\<close> copies the list of references,
  so the returned candidate holds the very placement objects of the input, and the
  jitter is written into them: the placement of the input candidate \<open>[0]\<close> moves from
  (0, 0) to (0.25, -0.25).
\<close>

theorem C10_mutate_changes_input_candidate:
  "fst (mutate example_heap [0] example_jitter) = [0]
   \<and> pos_x (example_heap 0) = 0 \<and> pos_y (example_heap 0) = 0
   \<and> pos_x (snd (mutate example_heap [0] example_jitter) 0) = 0.25
   \<and> pos_y (snd (mutate example_heap [0] example_jitter) 0) = - 0.25"
  by (simp add: example_mutate jitter_placement_def example_heap_def placed_def)

text \<open>
  The recorded best solution shares its placements as well: in the example generation
  the candidate \<open>[0]\<close> is recorded as best at x = 0, and after the mutations of the
  same generation its placement is at x = 0.5.
\<close>

lemma best_solution_modified:
  "\<exists>st'. generation_step example_optimizer [sample_garden_zone] example_draws example_state = Inr st'
     \<and> best_solution st' = Some [0]
     \<and> map (pos_x \<circ> store example_state) [0] = [0]
     \<and> map (pos_x \<circ> store st') [0] = [0.5]"
  by (simp add: example_generation)
     (simp add: example_state_def jitter_placement_def example_heap_def placed_def)

end
